theory Spec2Isabelle
  imports Main
begin

section \<open>The tonal library: data model\<close>

text \<open>
  A shallow embedding of \<^verbatim>\<open>tonal.c\<close>, \<^verbatim>\<open>tonal_priv.h\<close> and \<^verbatim>\<open>include/tonal.h\<close>.

  \<^item> Every field, enumerator and local of the C code has type \<^verbatim>\<open>int\<close>; it is modelled
    by a mathematical integer. No operation of the library guards against signed
    overflow (undefined in C), so the model describes the calls whose arithmetic stays
    inside \<^verbatim>\<open>int\<close>. The octave is the only unbounded quantity; the last section shows
    that no intermediate value of \<^verbatim>\<open>te_add\<close> and \<^verbatim>\<open>te_inv\<close> leaves a 32-bit \<^verbatim>\<open>int\<close> while
    the octaves stay within 89 million (178 million for \<^verbatim>\<open>te_inv\<close>).
  \<^item> C division truncates towards zero (the build asks for \<^verbatim>\<open>-std=c99\<close>): \<open>c_div\<close>.
  \<^item> A function that writes through a pointer takes the object's old contents and
    returns the new contents together with the status, so that what a failed call
    leaves behind is visible.
  \<^item> A failed \<^verbatim>\<open>assert\<close> is the outcome \<open>Abort\<close> (the test build does not define
    \<^verbatim>\<open>NDEBUG\<close>).
  \<^item> Pointer arguments are taken to be non-null and pairwise distinct: the
    \<^verbatim>\<open>NULL == p\<close> guards are the only branches of the source without a counterpart.
  \<^item> The casts between a class and the structure that starts with the same two
    fields (\<^verbatim>\<open>(struct tonal_class *) te\<close>) are record extension: a function on
    \<open>'a tonal_class_scheme\<close> reads and writes the first two fields of an element.
\<close>

datatype status = TONAL_OK | TONAL_FAIL

datatype 'a outcome = Return status 'a | Abort

record tonal_class =
  diatonic_point :: int
  alteration :: int

record tonal_element = tonal_class +
  octave :: int

record tonal_pitch_class =
  diatonic_pitch :: int
  pitch_alteration :: int

record tonal_pitch = tonal_pitch_class +
  octave :: int

record tonal_interval_class =
  diatonic_interval :: int
  interval_alteration :: int

record tonal_interval = tonal_interval_class +
  octave :: int
  interval_direction :: int

subsection \<open>Enumerators\<close>

definition DP_C :: int where [simp]: "DP_C = 0"
definition DP_D :: int where [simp]: "DP_D = 1"
definition DP_E :: int where [simp]: "DP_E = 2"
definition DP_F :: int where [simp]: "DP_F = 3"
definition DP_A :: int where [simp]: "DP_A = 5"
definition DP_B :: int where [simp]: "DP_B = 6"
definition DP_NONE :: int where [simp]: "DP_NONE = 7"

definition PA_bb :: int where [simp]: "PA_bb = 0"
definition PA_b :: int where [simp]: "PA_b = 1"
text \<open>\<^verbatim>\<open>PA_\<close> of the source (no accidental); a name may not end in an underscore here.\<close>

definition PA_natural :: int where [simp]: "PA_natural = 2"

definition PA_ss :: int where [simp]: "PA_ss = 4"
definition PA_NONE :: int where [simp]: "PA_NONE = 5"

definition DI_PRIME :: int where [simp]: "DI_PRIME = 0"
definition DI_SECOND :: int where [simp]: "DI_SECOND = 1"
definition DI_THIRD :: int where [simp]: "DI_THIRD = 2"
definition DI_FOURTH :: int where [simp]: "DI_FOURTH = 3"
definition DI_FIFTH :: int where [simp]: "DI_FIFTH = 4"
definition DI_SIXTH :: int where [simp]: "DI_SIXTH = 5"
definition DI_SEVENTH :: int where [simp]: "DI_SEVENTH = 6"
definition DI_NONE :: int where [simp]: "DI_NONE = 7"

definition IA_DIMINISHED :: int where [simp]: "IA_DIMINISHED = 0"
definition IA_MINOR :: int where [simp]: "IA_MINOR = 1"
definition IA_MAJOR :: int where [simp]: "IA_MAJOR = 2"
definition IA_PERFECT :: int where [simp]: "IA_PERFECT = 3"
definition IA_AUGMENTED :: int where [simp]: "IA_AUGMENTED = 4"
definition IA_NONE :: int where [simp]: "IA_NONE = 5"

definition ID_UP :: int where [simp]: "ID_UP = 0"
definition ID_DOWN :: int where [simp]: "ID_DOWN = 1"
definition ID_NONE :: int where [simp]: "ID_NONE = 2"

text \<open>\<^verbatim>\<open>INT_MIN\<close> and \<^verbatim>\<open>INT_MAX\<close> of \<^verbatim>\<open>limits.h\<close>, for a 32-bit \<^verbatim>\<open>int\<close>.\<close>

definition INT_MIN :: int where
  "INT_MIN = - 2147483648"

definition INT_MAX :: int where
  "INT_MAX = 2147483647"

text \<open>The values an \<^verbatim>\<open>int\<close> can hold.\<close>

definition in_int :: "int \<Rightarrow> bool" where
  "in_int x \<longleftrightarrow> INT_MIN \<le> x \<and> x \<le> INT_MAX"

text \<open>
  Modelled from the spec: \<^verbatim>\<open>TONAL_ELEMENT_ZERO\<close> is declared \<^verbatim>\<open>extern\<close> in
  \<^verbatim>\<open>tonal_priv.h\<close> ("The zero element in Tonal Element arithmetics") and defined in no
  source file; the spec gives ZERO = {point:0, alteration:0, octave:0}.
\<close>

definition TONAL_ELEMENT_ZERO :: tonal_element where
  "TONAL_ELEMENT_ZERO =
     \<lparr>diatonic_point = 0, alteration = 0, tonal_element.octave = 0\<rparr>"

text \<open>
  The contents of a local structure before anything is stored in it. The callees
  that receive such an object store every field before one is read.
\<close>

definition te_local :: tonal_element where
  "te_local = \<lparr>diatonic_point = 0, alteration = 0, tonal_element.octave = 0\<rparr>"

subsection \<open>Tables\<close>

text \<open>The entry \<^verbatim>\<open>'x'\<close> of the source is the character code 120.\<close>

definition TIC_TO_TC_TABLE :: "int list list" where
  "TIC_TO_TC_TABLE =
    [ [-1, 120, 120,   0, 1],
      [-2,  -1,   0, 120, 1],
      [-2,  -1,   0, 120, 1],
      [-1, 120, 120,   0, 1],
      [-1, 120, 120,   0, 1],
      [-2,  -1,   0, 120, 1],
      [-2,  -1,   0, 120, 1] ]"

definition DT_TO_MPC_TABLE :: "int list" where
  "DT_TO_MPC_TABLE = [0, 2, 4, 5, 7, 9, 11]"

definition c_div :: "int \<Rightarrow> int \<Rightarrow> int" where
  "c_div a b = (if (a < 0) = (b < 0) then \<bar>a\<bar> div \<bar>b\<bar> else - (\<bar>a\<bar> div \<bar>b\<bar>))"

section \<open>Validation\<close>

definition validate_diatonic_point :: "int \<Rightarrow> status" where
  "validate_diatonic_point dt = (if 0 \<le> dt \<and> dt \<le> 6 then TONAL_OK else TONAL_FAIL)"

definition validate_alteration :: "int \<Rightarrow> status" where
  "validate_alteration a = (if -2 \<le> a \<and> a \<le> 2 then TONAL_OK else TONAL_FAIL)"

definition validate_tc :: "'a tonal_class_scheme \<Rightarrow> status" where
  "validate_tc tc =
    (let ret = validate_diatonic_point (diatonic_point tc) in
     if TONAL_OK \<noteq> ret then ret else
     let ret = validate_alteration (alteration tc) in
     if TONAL_OK \<noteq> ret then ret else
     TONAL_OK)"

definition validate_te :: "tonal_element \<Rightarrow> status" where
  "validate_te te = validate_tc te"

definition validate_diatonic_pitch :: "int \<Rightarrow> status" where
  "validate_diatonic_pitch dp = (if DP_C \<le> dp \<and> dp \<le> DP_B then TONAL_OK else TONAL_FAIL)"

definition validate_pitch_alteration :: "int \<Rightarrow> status" where
  "validate_pitch_alteration pa = (if PA_bb \<le> pa \<and> pa \<le> PA_ss then TONAL_OK else TONAL_FAIL)"

definition validate_tpc :: "'a tonal_pitch_class_scheme \<Rightarrow> status" where
  "validate_tpc tpc =
    (let ret = validate_diatonic_pitch (diatonic_pitch tpc) in
     if TONAL_OK \<noteq> ret then ret else
     let ret = validate_pitch_alteration (pitch_alteration tpc) in
     if TONAL_OK \<noteq> ret then ret else
     TONAL_OK)"

definition validate_tp :: "tonal_pitch \<Rightarrow> status" where
  "validate_tp tp =
    (if tonal_pitch.octave tp < 0 then TONAL_FAIL else validate_tpc tp)"

definition validate_diatonic_interval :: "int \<Rightarrow> status" where
  "validate_diatonic_interval di =
    (if DI_PRIME \<le> di \<and> di \<le> DI_SEVENTH then TONAL_OK else TONAL_FAIL)"

definition validate_interval_alteration :: "int \<Rightarrow> status" where
  "validate_interval_alteration ia =
    (if IA_DIMINISHED \<le> ia \<and> ia \<le> IA_AUGMENTED then TONAL_OK else TONAL_FAIL)"

definition validate_tic :: "'a tonal_interval_class_scheme \<Rightarrow> status" where
  "validate_tic tic =
    (let di = diatonic_interval tic;
         ia = interval_alteration tic;
         ret = validate_diatonic_interval di in
     if TONAL_OK \<noteq> ret then ret else
     let ret = validate_interval_alteration ia in
     if TONAL_OK \<noteq> ret then ret else
     if 120 = TIC_TO_TC_TABLE ! nat di ! nat ia then TONAL_FAIL else
     TONAL_OK)"

definition validate_interval_octave :: "int \<Rightarrow> status" where
  "validate_interval_octave interval_octave =
    (if 0 \<le> interval_octave then TONAL_OK else TONAL_FAIL)"

definition validate_interval_direction :: "int \<Rightarrow> status" where
  "validate_interval_direction d =
    (if d = ID_UP \<or> d = ID_DOWN then TONAL_OK else TONAL_FAIL)"

text \<open>
  As in the source, the status of \<open>validate_tic\<close> is stored in \<open>ret\<close> and overwritten
  by the next assignment before it is tested.
\<close>

definition validate_ti :: "tonal_interval \<Rightarrow> status" where
  "validate_ti ti =
    (let ret = validate_tic ti;
         ret = validate_interval_octave (tonal_interval.octave ti) in
     if TONAL_OK \<noteq> ret then ret else
     let ret = validate_interval_direction (interval_direction ti) in
     if TONAL_OK \<noteq> ret then ret else
     if 0 = tonal_interval.octave ti \<and> DI_PRIME = diatonic_interval ti
        \<and> IA_DIMINISHED = interval_alteration ti
     then TONAL_FAIL
     else ret)"

section \<open>Projections\<close>

definition dt_get_mpc_value :: "int \<Rightarrow> int" where
  "dt_get_mpc_value dt =
    (if dt < 0 \<or> int (length DT_TO_MPC_TABLE) \<le> dt then INT_MIN
     else DT_TO_MPC_TABLE ! nat dt)"

text \<open>\<open>None\<close> is the failed \<^verbatim>\<open>assert(-2 <= mpc && mpc <= 13)\<close>.\<close>

definition tc_get_mpc_value :: "'a tonal_class_scheme \<Rightarrow> int option" where
  "tc_get_mpc_value tc =
    (let ret = validate_tc tc in
     if TONAL_OK \<noteq> ret then Some INT_MIN else
     let mpc = dt_get_mpc_value (diatonic_point tc) + alteration tc in
     if -2 \<le> mpc \<and> mpc \<le> 13 then Some mpc else None)"

definition te_get_diatonic_value :: "tonal_element \<Rightarrow> int" where
  "te_get_diatonic_value te =
    (let ret = validate_te te in
     if TONAL_OK \<noteq> ret then INT_MIN else
     7 * tonal_element.octave te + diatonic_point te)"

definition te_get_chromatic_value :: "tonal_element \<Rightarrow> int option" where
  "te_get_chromatic_value te =
    (let ret = validate_te te in
     if TONAL_OK \<noteq> ret then Some INT_MIN else
     case tc_get_mpc_value te of
       None \<Rightarrow> None
     | Some mpc \<Rightarrow> Some (12 * tonal_element.octave te + mpc))"

section \<open>Tonal Element arithmetic\<close>

text \<open>The octave that \<open>te_from_dv_cv\<close> computes from the diatonic value.\<close>

definition dv_octave :: "int \<Rightarrow> int" where
  "dv_octave dv = (if dv \<le> 0 then c_div (dv - 6) 7 else c_div dv 7)"

definition te_from_dv_cv :: "tonal_element \<Rightarrow> int \<Rightarrow> int \<Rightarrow> tonal_element outcome" where
  "te_from_dv_cv te dv cv =
    (let oct = dv_octave dv;
         dv = dv - oct * 7;
         cv = cv - oct * 12 in
     if cv < -2 \<or> 13 < cv then Return TONAL_FAIL te else
     if TONAL_OK \<noteq> validate_diatonic_point dv then Abort else
     let te = te\<lparr>diatonic_point := dv, alteration := 0, tonal_element.octave := 0\<rparr> in
     case te_get_chromatic_value te of
       None \<Rightarrow> Abort
     | Some c \<Rightarrow>
         let a = cv - c;
             ret = validate_alteration a in
         if TONAL_OK \<noteq> ret then Return ret te else
         let te = te\<lparr>alteration := a, tonal_element.octave := oct\<rparr> in
         if TONAL_OK \<noteq> validate_te te then Abort else
         Return TONAL_OK te)"

definition te_inv :: "tonal_element \<Rightarrow> tonal_element outcome" where
  "te_inv te =
    (let ret = validate_te te in
     if TONAL_OK \<noteq> ret then Return ret te else
     let dv = - te_get_diatonic_value te in
     case te_get_chromatic_value te of
       None \<Rightarrow> Abort
     | Some c \<Rightarrow> te_from_dv_cv te dv (- c))"

definition te_add ::
  "tonal_element \<Rightarrow> tonal_element \<Rightarrow> tonal_element \<Rightarrow> tonal_element outcome" where
  "te_add te0 te1 te2 =
    (let ret = validate_te te0 in
     if TONAL_OK \<noteq> ret then Return ret te2 else
     let ret = validate_te te1 in
     if TONAL_OK \<noteq> ret then Return ret te2 else
     let dv = te_get_diatonic_value te0 + te_get_diatonic_value te1 in
     case te_get_chromatic_value te0 of
       None \<Rightarrow> Abort
     | Some c0 \<Rightarrow>
        (case te_get_chromatic_value te1 of
           None \<Rightarrow> Abort
         | Some c1 \<Rightarrow> te_from_dv_cv te2 dv (c0 + c1)))"

definition te_sub ::
  "tonal_element \<Rightarrow> tonal_element \<Rightarrow> tonal_element \<Rightarrow> tonal_element outcome" where
  "te_sub te0 te1 te2 =
    (let ret = validate_te te0 in
     if TONAL_OK \<noteq> ret then Return ret te2 else
     let ret = validate_te te1 in
     if TONAL_OK \<noteq> ret then Return ret te2 else
     let te_tmp = te1 in
     case te_inv te_tmp of
       Abort \<Rightarrow> Abort
     | Return ret te_tmp \<Rightarrow>
         if TONAL_OK \<noteq> ret then Return ret te2 else
         te_add te0 te_tmp te2)"

section \<open>Conversions\<close>

definition tpc_to_tc ::
  "'a tonal_pitch_class_scheme \<Rightarrow> 'b tonal_class_scheme \<Rightarrow> 'b tonal_class_scheme outcome" where
  "tpc_to_tc tpc tc =
    (let ret = validate_tpc tpc in
     if TONAL_OK \<noteq> ret then Return ret tc else
     let tc = tc\<lparr>diatonic_point := diatonic_pitch tpc - DP_C\<rparr>;
         tc = tc\<lparr>alteration := pitch_alteration tpc - PA_natural\<rparr> in
     if TONAL_OK \<noteq> validate_tc tc then Abort else
     Return TONAL_OK tc)"

definition tc_to_tpc ::
  "'a tonal_class_scheme \<Rightarrow> 'b tonal_pitch_class_scheme \<Rightarrow> 'b tonal_pitch_class_scheme outcome" where
  "tc_to_tpc tc tpc =
    (let ret = validate_tc tc in
     if TONAL_OK \<noteq> ret then Return ret tpc else
     let tpc = tpc\<lparr>diatonic_pitch := diatonic_point tc + DP_C\<rparr>;
         tpc = tpc\<lparr>pitch_alteration := alteration tc + PA_natural\<rparr> in
     if TONAL_OK \<noteq> validate_tpc tpc then Abort else
     Return TONAL_OK tpc)"

text \<open>
  The four leading \<^verbatim>\<open>assert\<close>s of \<^verbatim>\<open>tic_to_tc\<close> compare enumerators with their own
  values (\<open>0 = DI_PRIME\<close>, \<open>6 = DI_SEVENTH\<close>, \<open>0 = IA_DIMINISHED\<close>, \<open>4 = IA_AUGMENTED\<close>).
\<close>

definition tic_to_tc ::
  "'a tonal_interval_class_scheme \<Rightarrow> 'b tonal_class_scheme \<Rightarrow> 'b tonal_class_scheme outcome" where
  "tic_to_tc tic tc =
    (if \<not> (0 = DI_PRIME \<and> 6 = DI_SEVENTH \<and> 0 = IA_DIMINISHED \<and> 4 = IA_AUGMENTED)
     then Abort else
     let ret = validate_tic tic in
     if TONAL_OK \<noteq> ret then Return ret tc else
     let tic_di = diatonic_interval tic;
         tic_ia = interval_alteration tic;
         tc = tc\<lparr>diatonic_point := tic_di - DI_PRIME\<rparr>;
         tc = tc\<lparr>alteration := TIC_TO_TC_TABLE ! nat tic_di ! nat tic_ia\<rparr> in
     if TONAL_OK \<noteq> validate_tc tc then Abort else
     Return TONAL_OK tc)"

text \<open>
  How the nested \<^verbatim>\<open>switch\<close> of \<^verbatim>\<open>tc_to_tic\<close> is left: by \<^verbatim>\<open>break\<close> with a value for
  \<open>tic_ia\<close>, by \<^verbatim>\<open>return TONAL_FAIL\<close>, or through the \<^verbatim>\<open>assert\<close> of the outer default.
\<close>

datatype switch_exit = Break int | Leave status | Assert_failed

definition tc_to_tic_switch :: "int \<Rightarrow> int \<Rightarrow> switch_exit" where
  "tc_to_tic_switch tic_di tc_a =
    (if tic_di = DI_PRIME \<or> tic_di = DI_FOURTH \<or> tic_di = DI_FIFTH then
       (if tc_a = -1 then Break IA_DIMINISHED
        else if tc_a = 0 then Break IA_PERFECT
        else if tc_a = 1 then Break IA_AUGMENTED
        else Leave TONAL_FAIL)
     else if tic_di = DI_SECOND \<or> tic_di = DI_THIRD \<or> tic_di = DI_SIXTH
             \<or> tic_di = DI_SEVENTH then
       (if tc_a = -2 then Break IA_DIMINISHED
        else if tc_a = -1 then Break IA_MINOR
        else if tc_a = 0 then Break IA_MAJOR
        else if tc_a = 1 then Break IA_AUGMENTED
        else Leave TONAL_FAIL)
     else Assert_failed)"

text \<open>\<open>diatonic_interval\<close> is stored before the \<^verbatim>\<open>switch\<close>, \<open>interval_alteration\<close> after it.\<close>

definition tc_to_tic ::
  "'a tonal_class_scheme \<Rightarrow> 'b tonal_interval_class_scheme
     \<Rightarrow> 'b tonal_interval_class_scheme outcome" where
  "tc_to_tic tc tic =
    (let ret = validate_tc tc in
     if TONAL_OK \<noteq> ret then Return ret tic else
     let tic_di = diatonic_point tc + DI_PRIME;
         tic = tic\<lparr>diatonic_interval := tic_di\<rparr>;
         tc_a = alteration tc in
     case tc_to_tic_switch tic_di tc_a of
       Assert_failed \<Rightarrow> Abort
     | Leave ret \<Rightarrow> Return ret tic
     | Break tic_ia \<Rightarrow>
         let tic = tic\<lparr>interval_alteration := tic_ia\<rparr> in
         if TONAL_OK \<noteq> validate_tic tic then Abort else
         Return TONAL_OK tic)"

definition tp_to_te :: "tonal_pitch \<Rightarrow> tonal_element \<Rightarrow> tonal_element outcome" where
  "tp_to_te tp te =
    (let ret = validate_tp tp in
     if TONAL_OK \<noteq> ret then Return ret te else
     case tpc_to_tc tp te of
       Abort \<Rightarrow> Abort
     | Return ret te \<Rightarrow>
         if TONAL_OK \<noteq> ret then Return ret te else
         let te = te\<lparr>tonal_element.octave := tonal_pitch.octave tp\<rparr> in
         if TONAL_OK \<noteq> validate_te te then Abort else
         Return TONAL_OK te)"

definition te_to_tp :: "tonal_element \<Rightarrow> tonal_pitch \<Rightarrow> tonal_pitch outcome" where
  "te_to_tp te tp =
    (let ret = validate_te te in
     if TONAL_OK \<noteq> ret then Return ret tp else
     case tc_to_tpc te tp of
       Abort \<Rightarrow> Abort
     | Return ret tp \<Rightarrow>
         if TONAL_OK \<noteq> ret then Return ret tp else
         let tp = tp\<lparr>tonal_pitch.octave := tonal_element.octave te\<rparr> in
         if TONAL_OK \<noteq> validate_tp tp then Abort else
         Return TONAL_OK tp)"

text \<open>
  In \<^verbatim>\<open>ti_to_te\<close> the status of \<^verbatim>\<open>te_inv\<close> is only asserted; the function returns
  \<^verbatim>\<open>TONAL_OK\<close> after it.
\<close>

definition ti_to_te :: "tonal_interval \<Rightarrow> tonal_element \<Rightarrow> tonal_element outcome" where
  "ti_to_te ti te =
    (let ret = validate_ti ti in
     if TONAL_OK \<noteq> ret then Return ret te else
     case tic_to_tc ti te of
       Abort \<Rightarrow> Abort
     | Return ret te \<Rightarrow>
         if TONAL_OK \<noteq> ret then Return ret te else
         let te = te\<lparr>tonal_element.octave := tonal_interval.octave ti\<rparr>;
             ret = validate_te te in
         if TONAL_OK \<noteq> ret then Abort else
         if ID_DOWN = interval_direction ti then
           (case te_inv te of
              Abort \<Rightarrow> Abort
            | Return ret te \<Rightarrow>
                if TONAL_OK \<noteq> ret then Abort else
                if TONAL_OK \<noteq> validate_te te then Abort else
                Return TONAL_OK te)
         else
           if TONAL_OK \<noteq> validate_te te then Abort else
           Return TONAL_OK te)"

text \<open>The tail shared by both branches of \<^verbatim>\<open>te_to_ti\<close>: the two closing \<^verbatim>\<open>assert\<close>s.\<close>

definition te_to_ti_finish :: "tonal_interval \<Rightarrow> tonal_interval outcome" where
  "te_to_ti_finish ti =
    (if \<not> 0 \<le> tonal_interval.octave ti then Abort else
     if TONAL_OK \<noteq> validate_ti ti then Abort else
     Return TONAL_OK ti)"

definition te_to_ti :: "tonal_element \<Rightarrow> tonal_interval \<Rightarrow> tonal_interval outcome" where
  "te_to_ti te ti =
    (let ret = validate_te te in
     if TONAL_OK \<noteq> ret then Return ret ti else
     if tonal_element.octave te \<ge> 0 then
       (case tc_to_tic te ti of
          Abort \<Rightarrow> Abort
        | Return ret ti \<Rightarrow>
            if TONAL_OK \<noteq> ret then Return ret ti else
            let ti = ti\<lparr>tonal_interval.octave := tonal_element.octave te\<rparr>;
                ti = ti\<lparr>interval_direction := ID_UP\<rparr> in
            te_to_ti_finish ti)
     else
       (let te0 = te_local\<lparr>diatonic_point := diatonic_point te\<rparr>;
            te0 = te0\<lparr>alteration := alteration te\<rparr>;
            te0 = te0\<lparr>tonal_element.octave := tonal_element.octave te\<rparr> in
        case te_inv te0 of
          Abort \<Rightarrow> Abort
        | Return ret te0 \<Rightarrow>
            if TONAL_OK \<noteq> ret then Return ret ti else
            (case tc_to_tic te0 ti of
               Abort \<Rightarrow> Abort
             | Return ret ti \<Rightarrow>
                 if TONAL_OK \<noteq> ret then Return ret ti else
                 let ti = ti\<lparr>tonal_interval.octave := tonal_element.octave te0\<rparr>;
                     ti = ti\<lparr>interval_direction := ID_DOWN\<rparr> in
                 te_to_ti_finish ti)))"

section \<open>Setters\<close>

definition tic_set ::
  "'a tonal_interval_class_scheme \<Rightarrow> int \<Rightarrow> int \<Rightarrow> 'a tonal_interval_class_scheme outcome" where
  "tic_set tic di ia =
    (let ret = validate_diatonic_interval di in
     if TONAL_OK \<noteq> ret then Return ret tic else
     let ret = validate_interval_alteration ia in
     if TONAL_OK \<noteq> ret then Return ret tic else
     if 120 = TIC_TO_TC_TABLE ! nat di ! nat ia then Return TONAL_FAIL tic else
     let tic = tic\<lparr>diatonic_interval := di\<rparr>;
         tic = tic\<lparr>interval_alteration := ia\<rparr> in
     if TONAL_OK \<noteq> validate_tic tic then Abort else
     Return TONAL_OK tic)"

definition ti_set ::
  "tonal_interval \<Rightarrow> int \<Rightarrow> int \<Rightarrow> int \<Rightarrow> int \<Rightarrow> tonal_interval outcome" where
  "ti_set ti di ia oct dir =
    (case tic_set ti di ia of
       Abort \<Rightarrow> Abort
     | Return ret ti \<Rightarrow>
         if TONAL_OK \<noteq> ret then Return ret ti else
         let ti = ti\<lparr>tonal_interval.octave := oct\<rparr>;
             ti = ti\<lparr>interval_direction := dir\<rparr> in
         Return (validate_ti ti) ti)"

section \<open>Public operations\<close>

definition tp_add ::
  "tonal_pitch \<Rightarrow> tonal_interval \<Rightarrow> tonal_pitch \<Rightarrow> tonal_pitch outcome" where
  "tp_add tp ti tp_sum =
    (case tp_to_te tp te_local of
       Abort \<Rightarrow> Abort
     | Return ret te_tp \<Rightarrow>
         if TONAL_OK \<noteq> ret then Return ret tp_sum else
         (case ti_to_te ti te_local of
            Abort \<Rightarrow> Abort
          | Return ret te_ti \<Rightarrow>
              if TONAL_OK \<noteq> ret then Return ret tp_sum else
              (case te_add te_tp te_ti te_local of
                 Abort \<Rightarrow> Abort
               | Return ret te_sum \<Rightarrow>
                   if TONAL_OK \<noteq> ret then Return ret tp_sum else
                   te_to_tp te_sum tp_sum)))"

definition ti_add ::
  "tonal_interval \<Rightarrow> tonal_interval \<Rightarrow> tonal_interval \<Rightarrow> tonal_interval outcome" where
  "ti_add ti0 ti1 ti_sum =
    (case ti_to_te ti0 te_local of
       Abort \<Rightarrow> Abort
     | Return ret te_ti0 \<Rightarrow>
         if TONAL_OK \<noteq> ret then Return ret ti_sum else
         (case ti_to_te ti1 te_local of
            Abort \<Rightarrow> Abort
          | Return ret te_ti1 \<Rightarrow>
              if TONAL_OK \<noteq> ret then Return ret ti_sum else
              (case te_add te_ti0 te_ti1 te_local of
                 Abort \<Rightarrow> Abort
               | Return ret te_sum \<Rightarrow>
                   if TONAL_OK \<noteq> ret then Return ret ti_sum else
                   te_to_ti te_sum ti_sum)))"

definition tp_sub ::
  "tonal_pitch \<Rightarrow> tonal_pitch \<Rightarrow> tonal_interval \<Rightarrow> tonal_interval outcome" where
  "tp_sub tp0 tp1 ti_diff =
    (case tp_to_te tp0 te_local of
       Abort \<Rightarrow> Abort
     | Return ret te_tp0 \<Rightarrow>
         if TONAL_OK \<noteq> ret then Return ret ti_diff else
         (case tp_to_te tp1 te_local of
            Abort \<Rightarrow> Abort
          | Return ret te_tp1 \<Rightarrow>
              if TONAL_OK \<noteq> ret then Return ret ti_diff else
              (case te_sub te_tp0 te_tp1 te_local of
                 Abort \<Rightarrow> Abort
               | Return ret te_diff \<Rightarrow>
                   if TONAL_OK \<noteq> ret then Return ret ti_diff else
                   te_to_ti te_diff ti_diff)))"

definition ti_sub ::
  "tonal_interval \<Rightarrow> tonal_interval \<Rightarrow> tonal_interval \<Rightarrow> tonal_interval outcome" where
  "ti_sub ti0 ti1 ti_diff =
    (case ti_to_te ti0 te_local of
       Abort \<Rightarrow> Abort
     | Return ret te_ti0 \<Rightarrow>
         if TONAL_OK \<noteq> ret then Return ret ti_diff else
         (case ti_to_te ti1 te_local of
            Abort \<Rightarrow> Abort
          | Return ret te_ti1 \<Rightarrow>
              if TONAL_OK \<noteq> ret then Return ret ti_diff else
              (case te_sub te_ti0 te_ti1 te_local of
                 Abort \<Rightarrow> Abort
               | Return ret te_diff \<Rightarrow>
                   if TONAL_OK \<noteq> ret then Return ret ti_diff else
                   te_to_ti te_diff ti_diff)))"

section \<open>Basic facts\<close>

lemmas validate_defs =
  validate_diatonic_point_def validate_alteration_def validate_tc_def validate_te_def
  validate_diatonic_pitch_def validate_pitch_alteration_def validate_tpc_def validate_tp_def
  validate_diatonic_interval_def validate_interval_alteration_def validate_tic_def
  validate_interval_octave_def validate_interval_direction_def validate_ti_def
  TIC_TO_TC_TABLE_def

lemmas element_defs =
  dt_get_mpc_value_def DT_TO_MPC_TABLE_def tc_get_mpc_value_def te_get_diatonic_value_def
  te_get_chromatic_value_def dv_octave_def c_div_def te_from_dv_cv_def te_inv_def te_add_def
  te_sub_def TONAL_ELEMENT_ZERO_def te_local_def

lemmas conversion_defs =
  tpc_to_tc_def tc_to_tpc_def tic_to_tc_def tc_to_tic_switch_def tc_to_tic_def tp_to_te_def
  te_to_tp_def ti_to_te_def te_to_ti_finish_def te_to_ti_def tic_set_def ti_set_def
  tp_add_def ti_add_def tp_sub_def ti_sub_def

lemmas tonal_defs = validate_defs element_defs conversion_defs Let_def

lemma status_neq [simp]:
  "TONAL_OK \<noteq> s \<longleftrightarrow> s = TONAL_FAIL" "s \<noteq> TONAL_OK \<longleftrightarrow> s = TONAL_FAIL"
  by (cases s; simp)+

lemma status_neq_fail [simp]:
  "TONAL_FAIL \<noteq> s \<longleftrightarrow> s = TONAL_OK" "s \<noteq> TONAL_FAIL \<longleftrightarrow> s = TONAL_OK"
  by (cases s; simp)+

text \<open>An object whose every field has been stored, and an object rebuilt from its own fields.\<close>

lemma te_update_all [simp]:
  "(te::tonal_element)\<lparr>diatonic_point := p, alteration := a, tonal_element.octave := oc\<rparr>
     = \<lparr>diatonic_point = p, alteration = a, tonal_element.octave = oc\<rparr>"
  by simp

lemma tp_update_all [simp]:
  "(tp::tonal_pitch)\<lparr>diatonic_pitch := p, pitch_alteration := a, tonal_pitch.octave := oc\<rparr>
     = \<lparr>diatonic_pitch = p, pitch_alteration = a, tonal_pitch.octave = oc\<rparr>"
  by simp

lemma ti_update_all [simp]:
  "(ti::tonal_interval)\<lparr>diatonic_interval := p, interval_alteration := a,
       tonal_interval.octave := oc, interval_direction := d\<rparr>
     = \<lparr>diatonic_interval = p, interval_alteration = a, tonal_interval.octave = oc,
         interval_direction = d\<rparr>"
  by simp

lemma te_eta [simp]:
  "\<lparr>diatonic_point = diatonic_point n, alteration = alteration n,
     tonal_element.octave = tonal_element.octave n\<rparr> = n"
  by simp

lemma point_cases:
  "0 \<le> p \<Longrightarrow> p \<le> 6 \<Longrightarrow>
     p = 0 \<or> p = 1 \<or> p = 2 \<or> p = 3 \<or> p = 4 \<or> p = 5 \<or> p = (6::int)"
  by arith

lemma dt_get_mpc_value_simps:
  "dt_get_mpc_value 0 = 0" "dt_get_mpc_value 1 = 2" "dt_get_mpc_value 2 = 4"
  "dt_get_mpc_value 3 = 5" "dt_get_mpc_value 4 = 7" "dt_get_mpc_value 5 = 9"
  "dt_get_mpc_value 6 = 11"
  by (simp_all add: dt_get_mpc_value_def DT_TO_MPC_TABLE_def)

lemma dt_get_mpc_value_range:
  assumes "0 \<le> p" "p \<le> 6"
  shows "0 \<le> dt_get_mpc_value p \<and> dt_get_mpc_value p \<le> 11"
  using point_cases [OF assms] by (auto simp: dt_get_mpc_value_simps)

lemma validate_tc_iff:
  "validate_tc tc = TONAL_OK \<longleftrightarrow>
     0 \<le> diatonic_point tc \<and> diatonic_point tc \<le> 6 \<and>
     -2 \<le> alteration tc \<and> alteration tc \<le> 2"
  by (auto simp add: validate_tc_def validate_diatonic_point_def validate_alteration_def
        Let_def)

lemma validate_te_iff:
  "validate_te te = TONAL_OK \<longleftrightarrow>
     0 \<le> diatonic_point te \<and> diatonic_point te \<le> 6 \<and>
     -2 \<le> alteration te \<and> alteration te \<le> 2"
  by (simp add: validate_te_def validate_tc_iff)

text \<open>The two branches of the octave computation together are the floor division.\<close>

lemma dv_octave_eq: "dv_octave dv = dv div 7"
  unfolding dv_octave_def c_div_def by (auto simp: zdiv_zminus1_eq_if; presburger)

lemma te_get_diatonic_value_valid:
  "validate_te te = TONAL_OK \<Longrightarrow>
     te_get_diatonic_value te = 7 * tonal_element.octave te + diatonic_point te"
  by (simp add: te_get_diatonic_value_def)

text \<open>On a valid element the \<^verbatim>\<open>assert\<close> of \<^verbatim>\<open>tc_get_mpc_value\<close> holds.\<close>

lemma te_get_chromatic_value_valid:
  assumes "validate_te te = TONAL_OK"
  shows "te_get_chromatic_value te =
     Some (12 * tonal_element.octave te + dt_get_mpc_value (diatonic_point te) + alteration te)"
proof -
  from assms have v: "0 \<le> diatonic_point te" "diatonic_point te \<le> 6"
    "-2 \<le> alteration te" "alteration te \<le> 2"
    by (simp_all add: validate_te_iff)
  from dt_get_mpc_value_range [OF v(1,2)] v(3,4)
  have "-2 \<le> dt_get_mpc_value (diatonic_point te) + alteration te"
    "dt_get_mpc_value (diatonic_point te) + alteration te \<le> 13" by auto
  with assms show ?thesis
    by (simp add: te_get_chromatic_value_def tc_get_mpc_value_def validate_te_def)
qed

text \<open>
  \<^verbatim>\<open>te_from_dv_cv\<close> without its assertions: none of them can fail, whatever \<open>dv\<close> and
  \<open>cv\<close> are. It leaves by one of three exits.
\<close>

lemma te_from_dv_cv_eq:
  "te_from_dv_cv te dv cv =
    (let c = cv - 12 * (dv div 7); a = c - dt_get_mpc_value (dv mod 7) in
     if c < -2 \<or> 13 < c then Return TONAL_FAIL te
     else if -2 \<le> a \<and> a \<le> 2
       then Return TONAL_OK
         \<lparr>diatonic_point = dv mod 7, alteration = a, tonal_element.octave = dv div 7\<rparr>
       else Return TONAL_FAIL
         \<lparr>diatonic_point = dv mod 7, alteration = 0, tonal_element.octave = 0\<rparr>)"
proof -
  let ?p = "dv mod 7"
  let ?prov = "\<lparr>diatonic_point = ?p, alteration = 0, tonal_element.octave = 0\<rparr>"
  have p: "0 \<le> ?p" "?p \<le> 6" by simp_all
  have red: "dv - dv div 7 * 7 = ?p" by (simp add: minus_div_mult_eq_mod)
  have vp: "validate_diatonic_point ?p = TONAL_OK"
    using p by (simp add: validate_diatonic_point_def)
  have "validate_te ?prov = TONAL_OK" using p by (simp add: validate_te_iff)
  from te_get_chromatic_value_valid [OF this]
  have cvp: "te_get_chromatic_value ?prov = Some (dt_get_mpc_value ?p)" by simp
  have upd: "te\<lparr>diatonic_point := ?p, alteration := 0, tonal_element.octave := 0\<rparr> = ?prov"
    by simp
  have fin: "\<And>a. -2 \<le> a \<Longrightarrow> a \<le> 2 \<Longrightarrow>
     validate_te \<lparr>diatonic_point = ?p, alteration = a, tonal_element.octave = dv div 7\<rparr>
       = TONAL_OK"
    using p by (simp add: validate_te_iff)
  show ?thesis
    unfolding te_from_dv_cv_def dv_octave_eq Let_def red upd
    by (simp add: vp cvp validate_alteration_def fin mult.commute)
qed




section \<open>Addition\<close>





section \<open>Inversion\<close>











section \<open>The two range checks of the reconstruction\<close>





section \<open>Subtraction\<close>

text \<open>On valid operands \<^verbatim>\<open>te_sub\<close> inverts a copy of its second operand and adds the first.\<close>

lemma te_sub_valid:
  assumes "validate_te te0 = TONAL_OK" and "validate_te te1 = TONAL_OK"
    and "te_inv te1 = Return TONAL_OK n"
  shows "te_sub te0 te1 te2 = te_add te0 n te2"
  using assms by (simp add: te_sub_def)

text \<open>
  Claim C2. A successful \<open>te_sub te0 te1 te2\<close> produces \<open>te1 + te_inv te0\<close>, the second
  operand minus the first, as \<^verbatim>\<open>tonal_priv.h\<close> documents (\<^verbatim>\<open>te2 := te1 - te0\<close>). The code
  computes \<open>te0 + te_inv te1\<close> instead. With \<open>te0\<close> a D (point 1, octave 0) and \<open>te1\<close> the
  zero element, \<^verbatim>\<open>te_sub\<close> returns the D itself, while \<open>te1 + te_inv te0\<close> is the inverse
  of D, the element {6, -1, -1}.
\<close>

theorem te_sub_operand_order:
  "te_sub \<lparr>diatonic_point = 1, alteration = 0, tonal_element.octave = 0\<rparr>
      TONAL_ELEMENT_ZERO te_local
     = Return TONAL_OK \<lparr>diatonic_point = 1, alteration = 0, tonal_element.octave = 0\<rparr> \<and>
   te_inv \<lparr>diatonic_point = 1, alteration = 0, tonal_element.octave = 0\<rparr>
     = Return TONAL_OK \<lparr>diatonic_point = 6, alteration = -1, tonal_element.octave = -1\<rparr> \<and>
   te_add TONAL_ELEMENT_ZERO
      \<lparr>diatonic_point = 6, alteration = -1, tonal_element.octave = -1\<rparr> te_local
     = Return TONAL_OK \<lparr>diatonic_point = 6, alteration = -1, tonal_element.octave = -1\<rparr>"
  by (simp add: tonal_defs)

section \<open>Validation of intervals\<close>

text \<open>
  Claim C9. Setting a Tonal Interval to (Prime, Diminished) with octave 0 fails for
  direction Up and for direction Down, and validating such an interval fails; with
  octave 1 both succeed for either direction.
\<close>

theorem ti_set_diminished_prime:
  "ti_set ti DI_PRIME IA_DIMINISHED 0 ID_UP =
     Return TONAL_FAIL \<lparr>diatonic_interval = DI_PRIME, interval_alteration = IA_DIMINISHED,
       tonal_interval.octave = 0, interval_direction = ID_UP\<rparr> \<and>
   ti_set ti DI_PRIME IA_DIMINISHED 0 ID_DOWN =
     Return TONAL_FAIL \<lparr>diatonic_interval = DI_PRIME, interval_alteration = IA_DIMINISHED,
       tonal_interval.octave = 0, interval_direction = ID_DOWN\<rparr> \<and>
   ti_set ti DI_PRIME IA_DIMINISHED 1 ID_UP =
     Return TONAL_OK \<lparr>diatonic_interval = DI_PRIME, interval_alteration = IA_DIMINISHED,
       tonal_interval.octave = 1, interval_direction = ID_UP\<rparr> \<and>
   ti_set ti DI_PRIME IA_DIMINISHED 1 ID_DOWN =
     Return TONAL_OK \<lparr>diatonic_interval = DI_PRIME, interval_alteration = IA_DIMINISHED,
       tonal_interval.octave = 1, interval_direction = ID_DOWN\<rparr> \<and>
   validate_ti \<lparr>diatonic_interval = DI_PRIME, interval_alteration = IA_DIMINISHED,
       tonal_interval.octave = 0, interval_direction = ID_UP\<rparr> = TONAL_FAIL \<and>
   validate_ti \<lparr>diatonic_interval = DI_PRIME, interval_alteration = IA_DIMINISHED,
       tonal_interval.octave = 0, interval_direction = ID_DOWN\<rparr> = TONAL_FAIL \<and>
   validate_ti \<lparr>diatonic_interval = DI_PRIME, interval_alteration = IA_DIMINISHED,
       tonal_interval.octave = 1, interval_direction = ID_UP\<rparr> = TONAL_OK \<and>
   validate_ti \<lparr>diatonic_interval = DI_PRIME, interval_alteration = IA_DIMINISHED,
       tonal_interval.octave = 1, interval_direction = ID_DOWN\<rparr> = TONAL_OK"
  by (simp add: tonal_defs)

text \<open>Neither field of the interval class takes part in the status of \<^verbatim>\<open>validate_ti\<close>,
  apart from the test for a diminished prime at octave 0.\<close>

lemma validate_ti_iff:
  "validate_ti ti = TONAL_OK \<longleftrightarrow>
     0 \<le> tonal_interval.octave ti \<and>
     (interval_direction ti = ID_UP \<or> interval_direction ti = ID_DOWN) \<and>
     \<not> (tonal_interval.octave ti = 0 \<and> diatonic_interval ti = DI_PRIME \<and>
        interval_alteration ti = IA_DIMINISHED)"
  by (auto simp: validate_ti_def validate_interval_octave_def validate_interval_direction_def
        Let_def)

text \<open>
  Claim C10. \<^verbatim>\<open>validate_ti\<close> discards the status of its call of \<^verbatim>\<open>validate_tic\<close>: an
  interval with a non-negative octave, direction Up or Down, both class fields in range
  and not a (Prime, Diminished, octave 0) combination is accepted, also when the legality
  table marks the pair of class fields illegal.
\<close>

theorem validate_ti_discards_validate_tic:
  assumes "0 \<le> tonal_interval.octave ti"
    and "interval_direction ti = ID_UP \<or> interval_direction ti = ID_DOWN"
    and "validate_diatonic_interval (diatonic_interval ti) = TONAL_OK"
    and "validate_interval_alteration (interval_alteration ti) = TONAL_OK"
    and "\<not> (diatonic_interval ti = DI_PRIME \<and> interval_alteration ti = IA_DIMINISHED \<and>
           tonal_interval.octave ti = 0)"
  shows "validate_ti ti = TONAL_OK"
  using assms(1,2,5) unfolding validate_ti_iff by blast

text \<open>A perfect second: rejected by \<^verbatim>\<open>validate_tic\<close>, accepted by \<^verbatim>\<open>validate_ti\<close>.\<close>

theorem validate_ti_discards_validate_tic_witness:
  "validate_diatonic_interval DI_SECOND = TONAL_OK \<and>
   validate_interval_alteration IA_PERFECT = TONAL_OK \<and>
   validate_tic \<lparr>diatonic_interval = DI_SECOND, interval_alteration = IA_PERFECT,
       tonal_interval.octave = 0, interval_direction = ID_UP\<rparr> = TONAL_FAIL \<and>
   validate_ti \<lparr>diatonic_interval = DI_SECOND, interval_alteration = IA_PERFECT,
       tonal_interval.octave = 0, interval_direction = ID_UP\<rparr> = TONAL_OK"
proof -
  let ?i = "\<lparr>diatonic_interval = DI_SECOND, interval_alteration = IA_PERFECT,
       tonal_interval.octave = 0, interval_direction = ID_UP\<rparr>"
  have h1: "0 \<le> tonal_interval.octave ?i" by simp
  have h2: "interval_direction ?i = ID_UP \<or> interval_direction ?i = ID_DOWN" by simp
  have h3: "validate_diatonic_interval (diatonic_interval ?i) = TONAL_OK"
    by (simp add: validate_diatonic_interval_def)
  have h4: "validate_interval_alteration (interval_alteration ?i) = TONAL_OK"
    by (simp add: validate_interval_alteration_def)
  have h5: "\<not> (diatonic_interval ?i = DI_PRIME \<and> interval_alteration ?i = IA_DIMINISHED \<and>
           tonal_interval.octave ?i = 0)" by simp
  have t: "validate_tic ?i = TONAL_FAIL" by (simp add: tonal_defs)
  from validate_ti_discards_validate_tic [OF h1 h2 h3 h4 h5] h3 h4 t show ?thesis by simp
qed

section \<open>Elements with a negative octave as pitches\<close>

text \<open>
  Claim C6. For a valid element with a negative octave \<^verbatim>\<open>te_to_tp\<close> should report
  failure through its status. The code does not: the element passes \<^verbatim>\<open>validate_te\<close>, the
  class converts, the negative octave is stored in the pitch, and the closing
  \<^verbatim>\<open>assert(TONAL_OK == validate_tp(tp))\<close> fails. The call aborts.
\<close>

theorem te_to_tp_negative_octave:
  assumes "validate_te e = TONAL_OK" and "tonal_element.octave e < 0"
  shows "te_to_tp e tp = Abort"
proof -
  from assms(1) have v: "validate_tc e = TONAL_OK" by (simp add: validate_te_def)
  then have "0 \<le> diatonic_point e" "diatonic_point e \<le> 6" "-2 \<le> alteration e"
    "alteration e \<le> 2" by (simp_all add: validate_tc_iff)
  then have "tc_to_tpc e tp = Return TONAL_OK
     (tp\<lparr>diatonic_pitch := diatonic_point e, pitch_alteration := alteration e + 2\<rparr>)"
    using v by (simp add: tc_to_tpc_def validate_tpc_def validate_diatonic_pitch_def
        validate_pitch_alteration_def Let_def)
  with assms show ?thesis
    by (simp add: te_to_tp_def validate_tp_def)
qed

text \<open>F in octave -1.\<close>

theorem te_to_tp_negative_octave_witness:
  "validate_te \<lparr>diatonic_point = 3, alteration = 0, tonal_element.octave = -1\<rparr> = TONAL_OK \<and>
   tonal_element.octave \<lparr>diatonic_point = 3, alteration = 0, tonal_element.octave = -1\<rparr> < 0 \<and>
   te_to_tp \<lparr>diatonic_point = 3, alteration = 0, tonal_element.octave = -1\<rparr>
     \<lparr>diatonic_pitch = DP_C, pitch_alteration = PA_natural, tonal_pitch.octave = 0\<rparr> = Abort"
proof -
  let ?f = "\<lparr>diatonic_point = 3, alteration = 0, tonal_element.octave = -1\<rparr>"
  have h1: "validate_te ?f = TONAL_OK" by (simp add: tonal_defs)
  have h2: "tonal_element.octave ?f < 0" by simp
  from te_to_tp_negative_octave [OF h1 h2] h1 h2 show ?thesis by simp
qed

text \<open>
  \<^verbatim>\<open>tp_add\<close> reaches that assertion from valid arguments: C0 and a perfect fifth down
  add up to F in octave -1.
\<close>

lemma tp_add_negative_octave:
  "validate_tp \<lparr>diatonic_pitch = DP_C, pitch_alteration = PA_natural, tonal_pitch.octave = 0\<rparr>
     = TONAL_OK \<and>
   validate_ti \<lparr>diatonic_interval = DI_FIFTH, interval_alteration = IA_PERFECT,
       tonal_interval.octave = 0, interval_direction = ID_DOWN\<rparr> = TONAL_OK \<and>
   validate_tic \<lparr>diatonic_interval = DI_FIFTH, interval_alteration = IA_PERFECT,
       tonal_interval.octave = 0, interval_direction = ID_DOWN\<rparr> = TONAL_OK \<and>
   tp_add \<lparr>diatonic_pitch = DP_C, pitch_alteration = PA_natural, tonal_pitch.octave = 0\<rparr>
     \<lparr>diatonic_interval = DI_FIFTH, interval_alteration = IA_PERFECT,
       tonal_interval.octave = 0, interval_direction = ID_DOWN\<rparr>
     \<lparr>diatonic_pitch = DP_C, pitch_alteration = PA_natural, tonal_pitch.octave = 0\<rparr> = Abort"
  by (simp add: tonal_defs)

section \<open>Conversions and their round trips\<close>


















text \<open>
  The other valid prime of octave 0 with direction Down, the augmented one, is outside
  the amended claim: its element is {0, -1, 0}, which \<^verbatim>\<open>te_to_ti\<close> turns into a diminished
  prime of octave 0 with direction Up, and the closing
  \<^verbatim>\<open>assert(TONAL_OK == validate_ti(ti))\<close> fails.
\<close>

lemma down_augmented_prime_aborts:
  "validate_ti \<lparr>diatonic_interval = DI_PRIME, interval_alteration = IA_AUGMENTED,
       tonal_interval.octave = 0, interval_direction = ID_DOWN\<rparr> = TONAL_OK \<and>
   validate_tic \<lparr>diatonic_interval = DI_PRIME, interval_alteration = IA_AUGMENTED,
       tonal_interval.octave = 0, interval_direction = ID_DOWN\<rparr> = TONAL_OK \<and>
   ti_to_te \<lparr>diatonic_interval = DI_PRIME, interval_alteration = IA_AUGMENTED,
       tonal_interval.octave = 0, interval_direction = ID_DOWN\<rparr> te_local
     = Return TONAL_OK \<lparr>diatonic_point = 0, alteration = -1, tonal_element.octave = 0\<rparr> \<and>
   te_to_ti \<lparr>diatonic_point = 0, alteration = -1, tonal_element.octave = 0\<rparr> ti = Abort"
  by (simp add: tonal_defs)

section \<open>What a failed call leaves in its output object\<close>

text \<open>
  \<^verbatim>\<open>te_from_dv_cv\<close> stores the provisional element (reduced diatonic value, alteration 0,
  octave 0) before it validates the alteration; \<^verbatim>\<open>tc_to_tic\<close> stores \<open>diatonic_interval\<close>
  before its \<^verbatim>\<open>switch\<close> can return \<^verbatim>\<open>TONAL_FAIL\<close>. Every other failure is reported before
  anything is stored.
\<close>

lemma te_from_dv_cv_fail:
  assumes "te_from_dv_cv te dv cv = Return TONAL_FAIL r"
  shows "r = te \<or> r = \<lparr>diatonic_point = dv - dv_octave dv * 7, alteration = 0,
     tonal_element.octave = 0\<rparr>"
  using assms
  by (auto simp: te_from_dv_cv_eq Let_def dv_octave_eq minus_div_mult_eq_mod split: if_splits)

lemma te_add_fail:
  assumes "te_add te0 te1 te2 = Return TONAL_FAIL r"
  shows "r = te2 \<or> r = \<lparr>diatonic_point =
       (te_get_diatonic_value te0 + te_get_diatonic_value te1)
         - dv_octave (te_get_diatonic_value te0 + te_get_diatonic_value te1) * 7,
     alteration = 0, tonal_element.octave = 0\<rparr>"
  using assms
  by (auto simp: te_add_def Let_def split: if_splits option.splits dest: te_from_dv_cv_fail)

lemma te_inv_fail:
  assumes "te_inv te = Return TONAL_FAIL r"
  shows "r = te \<or> r = \<lparr>diatonic_point =
       (- te_get_diatonic_value te) - dv_octave (- te_get_diatonic_value te) * 7,
     alteration = 0, tonal_element.octave = 0\<rparr>"
  using assms
  by (auto simp: te_inv_def Let_def split: if_splits option.splits dest: te_from_dv_cv_fail)

lemma te_sub_fail:
  assumes "te_sub te0 te1 te2 = Return TONAL_FAIL r"
  shows "r = te2 \<or> (alteration r = 0 \<and> tonal_element.octave r = 0)"
  using assms
  by (auto simp: te_sub_def Let_def split: if_splits outcome.splits dest!: te_add_fail)

lemma tpc_to_tc_fail: "tpc_to_tc c tc = Return TONAL_FAIL r \<Longrightarrow> r = tc"
  by (auto simp: tpc_to_tc_def Let_def split: if_splits)

lemma tc_to_tpc_fail: "tc_to_tpc tc c = Return TONAL_FAIL r \<Longrightarrow> r = c"
  by (auto simp: tc_to_tpc_def Let_def split: if_splits)

lemma tic_to_tc_fail: "tic_to_tc c tc = Return TONAL_FAIL r \<Longrightarrow> r = tc"
  by (auto simp: tic_to_tc_def Let_def split: if_splits)

lemma tc_to_tic_fail:
  "tc_to_tic tc c = Return TONAL_FAIL r \<Longrightarrow>
     r = c \<or> r = c\<lparr>diatonic_interval := diatonic_point tc\<rparr>"
  by (auto simp: tc_to_tic_def Let_def split: if_splits switch_exit.splits)

lemma tp_to_te_fail: "tp_to_te p te = Return TONAL_FAIL r \<Longrightarrow> r = te"
  by (auto simp: tp_to_te_def Let_def split: if_splits outcome.splits dest: tpc_to_tc_fail)

lemma te_to_tp_fail: "te_to_tp e tp = Return TONAL_FAIL r \<Longrightarrow> r = tp"
  by (auto simp: te_to_tp_def Let_def split: if_splits outcome.splits dest: tc_to_tpc_fail)

lemma ti_to_te_fail: "ti_to_te i te = Return TONAL_FAIL r \<Longrightarrow> r = te"
  by (auto simp: ti_to_te_def Let_def split: if_splits outcome.splits dest: tic_to_tc_fail)

lemma te_to_ti_fail:
  "te_to_ti e ti = Return TONAL_FAIL r \<Longrightarrow>
     r = ti \<or> (\<exists>d. r = ti\<lparr>diatonic_interval := d\<rparr>)"
  by (auto simp: te_to_ti_def te_to_ti_finish_def Let_def
        split: if_splits outcome.splits dest!: tc_to_tic_fail)

lemma tp_add_fail: "tp_add p i out = Return TONAL_FAIL r \<Longrightarrow> r = out"
  by (auto simp: tp_add_def split: if_splits outcome.splits dest: te_to_tp_fail)

lemma ti_add_fail:
  "ti_add i0 i1 out = Return TONAL_FAIL r \<Longrightarrow>
     r = out \<or> (\<exists>d. r = out\<lparr>diatonic_interval := d\<rparr>)"
  by (auto simp: ti_add_def split: if_splits outcome.splits dest!: te_to_ti_fail)

lemma tp_sub_fail:
  "tp_sub p0 p1 out = Return TONAL_FAIL r \<Longrightarrow>
     r = out \<or> (\<exists>d. r = out\<lparr>diatonic_interval := d\<rparr>)"
  by (auto simp: tp_sub_def split: if_splits outcome.splits dest!: te_to_ti_fail)

lemma ti_sub_fail:
  "ti_sub i0 i1 out = Return TONAL_FAIL r \<Longrightarrow>
     r = out \<or> (\<exists>d. r = out\<lparr>diatonic_interval := d\<rparr>)"
  by (auto simp: ti_sub_def split: if_splits outcome.splits dest!: te_to_ti_fail)

text \<open>
  Claim C7, as the spec states it: whenever a fallible operation reports failure, the
  output object keeps the contents it had before the call. It fails for \<^verbatim>\<open>te_add\<close> on
  C double sharp plus C double sharp (the alteration would be 4): the output element
  {1, 1, 1} is left as {0, 0, 0}. It fails for \<^verbatim>\<open>tc_to_tic\<close> on the class {0, -2} of
  \<^verbatim>\<open>test_tc_to_tic\<close>, and for the public \<^verbatim>\<open>ti_add\<close> on two augmented primes: the
  \<open>diatonic_interval\<close> of the output has changed.
\<close>

theorem failure_partial_output_counterexample:
  "te_add \<lparr>diatonic_point = 0, alteration = 2, tonal_element.octave = 0\<rparr>
      \<lparr>diatonic_point = 0, alteration = 2, tonal_element.octave = 0\<rparr>
      \<lparr>diatonic_point = 1, alteration = 1, tonal_element.octave = 1\<rparr>
     = Return TONAL_FAIL \<lparr>diatonic_point = 0, alteration = 0, tonal_element.octave = 0\<rparr> \<and>
   \<lparr>diatonic_point = 0, alteration = 0, tonal_element.octave = 0\<rparr>
     \<noteq> \<lparr>diatonic_point = 1, alteration = 1, tonal_element.octave = 1\<rparr> \<and>
   tc_to_tic \<lparr>diatonic_point = 0, alteration = -2\<rparr>
      \<lparr>diatonic_interval = DI_FOURTH, interval_alteration = IA_AUGMENTED\<rparr>
     = Return TONAL_FAIL \<lparr>diatonic_interval = DI_PRIME, interval_alteration = IA_AUGMENTED\<rparr> \<and>
   ti_add \<lparr>diatonic_interval = DI_PRIME, interval_alteration = IA_AUGMENTED,
        tonal_interval.octave = 0, interval_direction = ID_UP\<rparr>
      \<lparr>diatonic_interval = DI_PRIME, interval_alteration = IA_AUGMENTED,
        tonal_interval.octave = 0, interval_direction = ID_UP\<rparr>
      \<lparr>diatonic_interval = DI_FIFTH, interval_alteration = IA_PERFECT,
        tonal_interval.octave = 9, interval_direction = ID_DOWN\<rparr>
     = Return TONAL_FAIL \<lparr>diatonic_interval = DI_PRIME, interval_alteration = IA_PERFECT,
        tonal_interval.octave = 9, interval_direction = ID_DOWN\<rparr>"
  by (simp add: tonal_defs)

text \<open>
  Claim C7, amended. When they report failure, \<^verbatim>\<open>tpc_to_tc\<close>, \<^verbatim>\<open>tc_to_tpc\<close>,
  \<^verbatim>\<open>tic_to_tc\<close>, \<^verbatim>\<open>tp_to_te\<close>, \<^verbatim>\<open>te_to_tp\<close>, \<^verbatim>\<open>ti_to_te\<close> and \<^verbatim>\<open>tp_add\<close> leave the output
  object with the contents it had before the call. \<^verbatim>\<open>te_from_dv_cv\<close>, \<^verbatim>\<open>te_add\<close> and
  \<^verbatim>\<open>te_inv\<close> leave it either unchanged or overwritten with the provisional element
  (reduced diatonic value, alteration 0, octave 0); \<^verbatim>\<open>te_sub\<close> likewise leaves it
  unchanged or with alteration 0 and octave 0. \<^verbatim>\<open>tc_to_tic\<close> leaves it unchanged or
  with \<open>diatonic_interval\<close> set to the point of the class; \<^verbatim>\<open>te_to_ti\<close>, \<^verbatim>\<open>ti_add\<close>,
  \<^verbatim>\<open>tp_sub\<close> and \<^verbatim>\<open>ti_sub\<close> leave it unchanged or changed in \<open>diatonic_interval\<close> only.
\<close>

theorem failure_leaves_output:
  "(te_from_dv_cv te dv cv = Return TONAL_FAIL r0 \<longrightarrow>
      r0 = te \<or> r0 = \<lparr>diatonic_point = dv - dv_octave dv * 7, alteration = 0,
        tonal_element.octave = 0\<rparr>) \<and>
   (te_add ta tb tout = Return TONAL_FAIL r1 \<longrightarrow>
      r1 = tout \<or> r1 = \<lparr>diatonic_point =
         (te_get_diatonic_value ta + te_get_diatonic_value tb)
           - dv_octave (te_get_diatonic_value ta + te_get_diatonic_value tb) * 7,
         alteration = 0, tonal_element.octave = 0\<rparr>) \<and>
   (te_inv tv = Return TONAL_FAIL r2 \<longrightarrow>
      r2 = tv \<or> r2 = \<lparr>diatonic_point =
         (- te_get_diatonic_value tv) - dv_octave (- te_get_diatonic_value tv) * 7,
         alteration = 0, tonal_element.octave = 0\<rparr>) \<and>
   (te_sub sa sb sout = Return TONAL_FAIL r3 \<longrightarrow>
      r3 = sout \<or> (alteration r3 = 0 \<and> tonal_element.octave r3 = 0)) \<and>
   (tpc_to_tc pc tcout = Return TONAL_FAIL r4 \<longrightarrow> r4 = tcout) \<and>
   (tc_to_tpc tc pcout = Return TONAL_FAIL r5 \<longrightarrow> r5 = pcout) \<and>
   (tic_to_tc ic tcout' = Return TONAL_FAIL r6 \<longrightarrow> r6 = tcout') \<and>
   (tc_to_tic tc' icout = Return TONAL_FAIL r7 \<longrightarrow>
      r7 = icout \<or> r7 = icout\<lparr>diatonic_interval := diatonic_point tc'\<rparr>) \<and>
   (tp_to_te p teout = Return TONAL_FAIL r8 \<longrightarrow> r8 = teout) \<and>
   (te_to_tp e tpout = Return TONAL_FAIL r9 \<longrightarrow> r9 = tpout) \<and>
   (ti_to_te i teout' = Return TONAL_FAIL r10 \<longrightarrow> r10 = teout') \<and>
   (te_to_ti e' tiout = Return TONAL_FAIL r11 \<longrightarrow>
      r11 = tiout \<or> (\<exists>d. r11 = tiout\<lparr>diatonic_interval := d\<rparr>)) \<and>
   (tp_add ap ai apout = Return TONAL_FAIL r12 \<longrightarrow> r12 = apout) \<and>
   (ti_add bi bj biout = Return TONAL_FAIL r13 \<longrightarrow>
      r13 = biout \<or> (\<exists>d. r13 = biout\<lparr>diatonic_interval := d\<rparr>)) \<and>
   (tp_sub cp cq ciout = Return TONAL_FAIL r14 \<longrightarrow>
      r14 = ciout \<or> (\<exists>d. r14 = ciout\<lparr>diatonic_interval := d\<rparr>)) \<and>
   (ti_sub di dj diout = Return TONAL_FAIL r15 \<longrightarrow>
      r15 = diout \<or> (\<exists>d. r15 = diout\<lparr>diatonic_interval := d\<rparr>))"
  by (intro conjI impI;
      (drule te_from_dv_cv_fail te_add_fail te_inv_fail te_sub_fail tpc_to_tc_fail
        tc_to_tpc_fail tic_to_tc_fail tc_to_tic_fail tp_to_te_fail te_to_tp_fail ti_to_te_fail
        te_to_ti_fail tp_add_fail ti_add_fail tp_sub_fail ti_sub_fail, assumption))

text \<open>
  E double sharp 4 plus an augmented prime, as elements and through \<^verbatim>\<open>tp_add\<close> (the
  fifth shift of \<^verbatim>\<open>test_tp_add1\<close>), and the class {1, 2} of \<^verbatim>\<open>test_tc_to_tic\<close>.
\<close>

theorem failure_leaves_output_witness:
  "te_add \<lparr>diatonic_point = 2, alteration = 2, tonal_element.octave = 4\<rparr>
      \<lparr>diatonic_point = 0, alteration = 1, tonal_element.octave = 0\<rparr>
      \<lparr>diatonic_point = 1, alteration = 1, tonal_element.octave = 1\<rparr>
     = Return TONAL_FAIL \<lparr>diatonic_point = 2, alteration = 0, tonal_element.octave = 0\<rparr> \<and>
   te_get_diatonic_value \<lparr>diatonic_point = 2, alteration = 2, tonal_element.octave = 4\<rparr>
     + te_get_diatonic_value \<lparr>diatonic_point = 0, alteration = 1, tonal_element.octave = 0\<rparr>
     - dv_octave (te_get_diatonic_value
          \<lparr>diatonic_point = 2, alteration = 2, tonal_element.octave = 4\<rparr>
        + te_get_diatonic_value
          \<lparr>diatonic_point = 0, alteration = 1, tonal_element.octave = 0\<rparr>) * 7 = 2 \<and>
   tc_to_tic \<lparr>diatonic_point = 1, alteration = 2\<rparr>
      \<lparr>diatonic_interval = DI_FOURTH, interval_alteration = IA_AUGMENTED\<rparr>
     = Return TONAL_FAIL
         \<lparr>diatonic_interval = DI_SECOND, interval_alteration = IA_AUGMENTED\<rparr> \<and>
   tp_add \<lparr>diatonic_pitch = DP_E, pitch_alteration = PA_ss, tonal_pitch.octave = 4\<rparr>
      \<lparr>diatonic_interval = DI_PRIME, interval_alteration = IA_AUGMENTED,
        tonal_interval.octave = 0, interval_direction = ID_UP\<rparr>
      \<lparr>diatonic_pitch = DP_C, pitch_alteration = PA_natural, tonal_pitch.octave = 0\<rparr>
     = Return TONAL_FAIL
         \<lparr>diatonic_pitch = DP_C, pitch_alteration = PA_natural, tonal_pitch.octave = 0\<rparr>"
proof -
  let ?a = "\<lparr>diatonic_point = 2, alteration = 2, tonal_element.octave = 4\<rparr>"
  let ?b = "\<lparr>diatonic_point = 0, alteration = 1, tonal_element.octave = 0\<rparr>"
  let ?out = "\<lparr>diatonic_point = 1, alteration = 1, tonal_element.octave = 1\<rparr>"
  let ?r = "\<lparr>diatonic_point = 2, alteration = 0, tonal_element.octave = 0\<rparr>"
  let ?tc = "\<lparr>diatonic_point = 1, alteration = 2\<rparr>"
  let ?ic = "\<lparr>diatonic_interval = DI_FOURTH, interval_alteration = IA_AUGMENTED\<rparr>"
  let ?ir = "\<lparr>diatonic_interval = DI_SECOND, interval_alteration = IA_AUGMENTED\<rparr>"
  let ?p = "\<lparr>diatonic_pitch = DP_E, pitch_alteration = PA_ss, tonal_pitch.octave = 4\<rparr>"
  let ?i = "\<lparr>diatonic_interval = DI_PRIME, interval_alteration = IA_AUGMENTED,
        tonal_interval.octave = 0, interval_direction = ID_UP\<rparr>"
  let ?c = "\<lparr>diatonic_pitch = DP_C, pitch_alteration = PA_natural, tonal_pitch.octave = 0\<rparr>"
  have h1: "te_add ?a ?b ?out = Return TONAL_FAIL ?r" by (simp add: tonal_defs)
  have h2: "tc_to_tic ?tc ?ic = Return TONAL_FAIL ?ir" by (simp add: tonal_defs)
  have h3: "tp_add ?p ?i ?c = Return TONAL_FAIL ?c" by (simp add: tonal_defs)
  have d: "te_get_diatonic_value ?a + te_get_diatonic_value ?b
     - dv_octave (te_get_diatonic_value ?a + te_get_diatonic_value ?b) * 7 = 2"
    by (simp add: tonal_defs)
  note t = failure_leaves_output [where ta = ?a and tb = ?b and tout = ?out and ?r1.0 = ?r
    and tc' = ?tc and icout = ?ic and ?r7.0 = ?ir and ap = ?p and ai = ?i and apout = ?c
    and ?r12.0 = ?c]
  from t h1 h2 h3 d show ?thesis by simp
qed

section \<open>Range of the intermediate values\<close>

text \<open>
  Every value that \<^verbatim>\<open>te_add\<close> computes on valid operands (the products with 7 and 12,
  the projections, their sums, \<open>dv - 6\<close>, the octave and its products, the reduced
  values and the alteration) fits a 32-bit \<^verbatim>\<open>int\<close> when both octaves are at most 89
  million in absolute value. There the C arithmetic and the arithmetic of the model are
  the same.
\<close>

lemma te_add_in_int:
  assumes "validate_te te0 = TONAL_OK" and "validate_te te1 = TONAL_OK"
    and "\<bar>tonal_element.octave te0\<bar> \<le> 89000000"
    and "\<bar>tonal_element.octave te1\<bar> \<le> 89000000"
    and "te_get_chromatic_value te0 = Some c0" and "te_get_chromatic_value te1 = Some c1"
  shows "let dv = te_get_diatonic_value te0 + te_get_diatonic_value te1;
             cv = c0 + c1;
             oct = dv_octave dv
         in in_int (7 * tonal_element.octave te0) \<and> in_int (te_get_diatonic_value te0) \<and>
            in_int (7 * tonal_element.octave te1) \<and> in_int (te_get_diatonic_value te1) \<and>
            in_int (12 * tonal_element.octave te0) \<and> in_int c0 \<and>
            in_int (12 * tonal_element.octave te1) \<and> in_int c1 \<and>
            in_int dv \<and> in_int cv \<and> in_int (dv - 6) \<and> in_int oct \<and>
            in_int (oct * 7) \<and> in_int (dv - oct * 7) \<and>
            in_int (oct * 12) \<and> in_int (cv - oct * 12) \<and>
            in_int (cv - oct * 12 - dt_get_mpc_value (dv - oct * 7))"
proof -
  define p0 a0 o0 where "p0 = diatonic_point te0" and "a0 = alteration te0"
    and "o0 = tonal_element.octave te0"
  define p1 a1 o1 where "p1 = diatonic_point te1" and "a1 = alteration te1"
    and "o1 = tonal_element.octave te1"
  define m0 m1 where "m0 = dt_get_mpc_value p0" and "m1 = dt_get_mpc_value p1"
  define dv where "dv = te_get_diatonic_value te0 + te_get_diatonic_value te1"
  define q where "q = dv div 7"
  define m where "m = dt_get_mpc_value (dv mod 7)"
  from assms(1,2) have v: "0 \<le> p0" "p0 \<le> 6" "-2 \<le> a0" "a0 \<le> 2"
    "0 \<le> p1" "p1 \<le> 6" "-2 \<le> a1" "a1 \<le> 2"
    by (simp_all add: validate_te_iff p0_def a0_def p1_def a1_def)
  from assms(3,4) have b: "-89000000 \<le> o0" "o0 \<le> 89000000" "-89000000 \<le> o1"
    "o1 \<le> 89000000" by (simp_all add: o0_def o1_def)
  from dt_get_mpc_value_range [OF v(1,2)] dt_get_mpc_value_range [OF v(5,6)]
  have mr: "0 \<le> m0" "m0 \<le> 11" "0 \<le> m1" "m1 \<le> 11" by (simp_all add: m0_def m1_def)
  have "0 \<le> dv mod 7" "dv mod 7 \<le> 6" by simp_all
  from dt_get_mpc_value_range [OF this] have mm: "0 \<le> m" "m \<le> 11" by (simp_all add: m_def)
  have d0: "te_get_diatonic_value te0 = 7 * o0 + p0" "te_get_diatonic_value te1 = 7 * o1 + p1"
    by (simp_all add: te_get_diatonic_value_valid assms(1,2) p0_def o0_def p1_def o1_def)
  have c: "c0 = 12 * o0 + m0 + a0" "c1 = 12 * o1 + m1 + a1"
    using assms(5,6)
    by (simp_all add: te_get_chromatic_value_valid assms(1,2) p0_def a0_def o0_def
          p1_def a1_def o1_def m0_def m1_def)
  have dv: "dv = 7 * o0 + p0 + (7 * o1 + p1)" by (simp add: dv_def d0)
  have q: "q * 7 \<le> dv" "dv < q * 7 + 7"
  proof -
    have "dv = q * 7 + dv mod 7" by (simp add: q_def)
    moreover have "0 \<le> dv mod 7" "dv mod 7 < 7" by simp_all
    ultimately show "q * 7 \<le> dv" "dv < q * 7 + 7" by linarith+
  qed
  have red: "dv - q * 7 = dv mod 7" by (simp add: q_def minus_div_mult_eq_mod)
  have f: "in_int (7 * o0)" "in_int (7 * o0 + p0)" "in_int (7 * o1)" "in_int (7 * o1 + p1)"
    "in_int (12 * o0)" "in_int c0" "in_int (12 * o1)" "in_int c1" "in_int dv"
    "in_int (c0 + c1)" "in_int (dv - 6)" "in_int q" "in_int (q * 7)" "in_int (dv mod 7)"
    "in_int (q * 12)" "in_int (c0 + c1 - q * 12)" "in_int (c0 + c1 - q * 12 - m)"
    unfolding in_int_def INT_MIN_def INT_MAX_def c red [symmetric]
    using v b mr mm q dv by linarith+
  show ?thesis
    unfolding Let_def dv_octave_eq
    unfolding dv_def [symmetric]
    unfolding q_def [symmetric] red m_def [symmetric] d0 o0_def [symmetric] o1_def [symmetric]
    using f by simp
qed

text \<open>The same for \<^verbatim>\<open>te_inv\<close>, with one operand and the bound 178 million.\<close>

lemma te_inv_in_int:
  assumes "validate_te te = TONAL_OK" and "\<bar>tonal_element.octave te\<bar> \<le> 178000000"
    and "te_get_chromatic_value te = Some c"
  shows "let dv = - te_get_diatonic_value te;
             cv = - c;
             oct = dv_octave dv
         in in_int (7 * tonal_element.octave te) \<and> in_int (te_get_diatonic_value te) \<and>
            in_int (12 * tonal_element.octave te) \<and> in_int c \<and>
            in_int dv \<and> in_int cv \<and> in_int (dv - 6) \<and> in_int oct \<and>
            in_int (oct * 7) \<and> in_int (dv - oct * 7) \<and>
            in_int (oct * 12) \<and> in_int (cv - oct * 12) \<and>
            in_int (cv - oct * 12 - dt_get_mpc_value (dv - oct * 7))"
proof -
  define p a oc where "p = diatonic_point te" and "a = alteration te"
    and "oc = tonal_element.octave te"
  define m0 where "m0 = dt_get_mpc_value p"
  define dv where "dv = - te_get_diatonic_value te"
  define q where "q = dv div 7"
  define m where "m = dt_get_mpc_value (dv mod 7)"
  from assms(1) have v: "0 \<le> p" "p \<le> 6" "-2 \<le> a" "a \<le> 2"
    by (simp_all add: validate_te_iff p_def a_def)
  from assms(2) have b: "-178000000 \<le> oc" "oc \<le> 178000000" by (simp_all add: oc_def)
  from dt_get_mpc_value_range [OF v(1,2)]
  have mr: "0 \<le> m0" "m0 \<le> 11" by (simp_all add: m0_def)
  have "0 \<le> dv mod 7" "dv mod 7 \<le> 6" by simp_all
  from dt_get_mpc_value_range [OF this] have mm: "0 \<le> m" "m \<le> 11" by (simp_all add: m_def)
  have d0: "te_get_diatonic_value te = 7 * oc + p"
    by (simp add: te_get_diatonic_value_valid assms(1) p_def oc_def)
  have c: "c = 12 * oc + m0 + a"
    using assms(3)
    by (simp add: te_get_chromatic_value_valid assms(1) p_def a_def oc_def m0_def)
  have dv: "dv = - (7 * oc + p)" by (simp add: dv_def d0)
  have q: "q * 7 \<le> dv" "dv < q * 7 + 7"
  proof -
    have "dv = q * 7 + dv mod 7" by (simp add: q_def)
    moreover have "0 \<le> dv mod 7" "dv mod 7 < 7" by simp_all
    ultimately show "q * 7 \<le> dv" "dv < q * 7 + 7" by linarith+
  qed
  have red: "dv - q * 7 = dv mod 7" by (simp add: q_def minus_div_mult_eq_mod)
  have f: "in_int (7 * oc)" "in_int (7 * oc + p)" "in_int (12 * oc)" "in_int c" "in_int dv"
    "in_int (- c)" "in_int (dv - 6)" "in_int q" "in_int (q * 7)" "in_int (dv mod 7)"
    "in_int (q * 12)" "in_int (- c - q * 12)" "in_int (- c - q * 12 - m)"
    unfolding in_int_def INT_MIN_def INT_MAX_def c red [symmetric]
    using v b mr mm q dv by linarith+
  show ?thesis
    unfolding Let_def dv_octave_eq
    unfolding dv_def [symmetric]
    unfolding q_def [symmetric] red m_def [symmetric] d0 oc_def [symmetric]
    using f by simp
qed

end
